theory Spec2Isabelle
  imports Main "HOL-Library.Word"
begin

section \<open>Hedge Edge license DLL: strings and the minimal JSON codec\<close>

text \<open>
  The DLL is built for MetaTrader 5 on Windows (x64, MSVC). A \<^verbatim>\<open>std::string\<close> is a
  list of bytes, modelled as \<^typ>\<open>string\<close>; a \<^verbatim>\<open>std::wstring\<close> is a list of 16-bit
  code units. Plain \<^verbatim>\<open>char\<close> is a signed 8-bit type on this target, so a byte from
  \<^verbatim>\<open>0x80\<close> upwards compares as a negative number.
\<close>

type_synonym wstring = "16 word list"
type_synonym dword = "32 word"

definition NUL :: char where
  "NUL = CHR 0x00"

definition dquote :: char where
  "dquote = CHR 0x22"

definition backslash :: char where
  "backslash = CHR 0x5C"

text \<open>The value of a plain \<^verbatim>\<open>char\<close> after integral promotion (signed char).\<close>

definition char_value :: "char \<Rightarrow> int" where
  "char_value c = (if (of_char c :: int) < 128 then of_char c else of_char c - 256)"

text \<open>A wide literal \<^verbatim>\<open>L"..."\<close> of ASCII characters.\<close>

definition widen :: "string \<Rightarrow> wstring" where
  "widen str = map (\<lambda>c. of_nat (of_char c)) str"

subsection \<open>C strings and \<^verbatim>\<open>strncpy\<close>\<close>

text \<open>
  \<^verbatim>\<open>c_str()\<close> read as a C string ends at the first NUL byte. \<^verbatim>\<open>strncpy(dst, src, n)\<close>
  writes exactly \<open>n\<close> bytes to \<open>dst\<close>: the first \<open>n\<close> bytes of the C string, padded with
  NUL bytes when the string is shorter (and without any terminator when it is not).
  The model returns the bytes written, from offset 0 of the destination buffer.
\<close>

definition c_str :: "string \<Rightarrow> string" where
  "c_str str = takeWhile (\<lambda>c. c \<noteq> NUL) str"

definition strncpy :: "string \<Rightarrow> nat \<Rightarrow> string" where
  "strncpy src n = take n (c_str src) @ replicate (n - length (c_str src)) NUL"

subsection \<open>\<^verbatim>\<open>std::to_string\<close> and \<^verbatim>\<open>std::stoi\<close>\<close>

definition digit_char :: "int \<Rightarrow> char" where
  "digit_char d = ''0123456789'' ! nat d"

function decimal_digits :: "int \<Rightarrow> string" where
  "decimal_digits n =
     (if n < 10 then [digit_char n] else decimal_digits (n div 10) @ [digit_char (n mod 10)])"
  by pat_completeness auto
termination
  by (relation "measure nat") auto

declare decimal_digits.simps [simp del]

text \<open>\<^verbatim>\<open>std::to_string\<close> of an \<^verbatim>\<open>int\<close>, and of an unsigned value given as its number.\<close>

definition to_string :: "int \<Rightarrow> string" where
  "to_string i = (if i < 0 then CHR ''-'' # decimal_digits (- i) else decimal_digits i)"

datatype cpp_exception = invalid_argument | out_of_range

definition isspace :: "char \<Rightarrow> bool" where
  "isspace c = (c = CHR '' '' \<or> c = CHR 0x09 \<or> c = CHR 0x0A \<or> c = CHR 0x0B \<or> c = CHR 0x0C \<or> c = CHR 0x0D)"

definition isdigit :: "char \<Rightarrow> bool" where
  "isdigit c = (48 \<le> (of_char c :: nat) \<and> (of_char c :: nat) \<le> 57)"

definition digits_value :: "string \<Rightarrow> int" where
  "digits_value ds = foldl (\<lambda>acc c. acc * 10 + (int (of_char c) - 48)) 0 ds"

text \<open>
  \<^verbatim>\<open>std::stoi(str)\<close> with base 10, as the C++ standard library defines it over
  \<^verbatim>\<open>strtol\<close>: leading white space is skipped, one sign is accepted, the longest run of
  decimal digits is converted and anything after it is ignored. No digit at all throws
  \<^verbatim>\<open>std::invalid_argument\<close>; a value outside the 32-bit \<^verbatim>\<open>int\<close> throws
  \<^verbatim>\<open>std::out_of_range\<close>.
\<close>

definition stoi :: "string \<Rightarrow> cpp_exception + int" where
  "stoi str =
     (let p = dropWhile isspace str;
          neg = (p \<noteq> [] \<and> hd p = CHR ''-'');
          q = (if p \<noteq> [] \<and> (hd p = CHR ''-'' \<or> hd p = CHR ''+'') then tl p else p);
          ds = takeWhile isdigit q;
          v = (if neg then - digits_value ds else digits_value ds)
      in if ds = [] then Inl invalid_argument
         else if v < - (2 ^ 31) \<or> 2 ^ 31 - 1 < v then Inl out_of_range
         else Inr v)"

subsection \<open>\<^verbatim>\<open>EscapeJson\<close>\<close>

definition hex_char :: "nat \<Rightarrow> char" where
  "hex_char d = (if d < 10 then char_of (48 + d) else char_of (87 + d))"

text \<open>\<^verbatim>\<open>sprintf(buf, "\\u%04x", (unsigned char)c)\<close>: four lower-case hexadecimal digits.\<close>

definition sprintf_u04x :: "nat \<Rightarrow> string" where
  "sprintf_u04x n =
     [backslash, CHR ''u'', hex_char (n div 4096 mod 16), hex_char (n div 256 mod 16),
      hex_char (n div 16 mod 16), hex_char (n mod 16)]"

text \<open>The body of the \<^verbatim>\<open>switch (c)\<close>: what one character appends to the stream.\<close>

definition escape_char :: "char \<Rightarrow> string" where
  "escape_char c =
     (if c = dquote then [backslash, dquote]
      else if c = backslash then [backslash, backslash]
      else if c = CHR 0x08 then [backslash, CHR ''b'']
      else if c = CHR 0x0C then [backslash, CHR ''f'']
      else if c = CHR 0x0A then [backslash, CHR ''n'']
      else if c = CHR 0x0D then [backslash, CHR ''r'']
      else if c = CHR 0x09 then [backslash, CHR ''t'']
      else if char_value c < 0x20 then sprintf_u04x (of_char c)
      else [c])"

fun EscapeJson :: "string \<Rightarrow> string" where
  "EscapeJson [] = []"
| "EscapeJson (c # str) = escape_char c @ EscapeJson str"

subsection \<open>\<^verbatim>\<open>ExtractJsonValue\<close>\<close>

text \<open>\<^verbatim>\<open>std::string::find\<close>: the first position at or after \<open>pos\<close>, or \<open>npos\<close> (\<open>None\<close>).\<close>

function find_str :: "string \<Rightarrow> string \<Rightarrow> nat \<Rightarrow> nat option" where
  "find_str s pat pos =
     (if length s < pos + length pat then None
      else if take (length pat) (drop pos s) = pat then Some pos
      else find_str s pat (pos + 1))"
  by pat_completeness auto
termination
  by (relation "measure (\<lambda>(s, pat, pos). Suc (length s) - pos)") auto

declare find_str.simps [simp del]

function find_chr :: "string \<Rightarrow> char \<Rightarrow> nat \<Rightarrow> nat option" where
  "find_chr s c pos =
     (if length s \<le> pos then None
      else if s ! pos = c then Some pos
      else find_chr s c (pos + 1))"
  by pat_completeness auto
termination
  by (relation "measure (\<lambda>(s, c, pos). length s - pos)") auto

declare find_chr.simps [simp del]

text \<open>\<^verbatim>\<open>substr(pos, n)\<close> for \<open>pos \<le> length\<close>, the only way the code calls it.\<close>

definition substr :: "string \<Rightarrow> nat \<Rightarrow> nat \<Rightarrow> string" where
  "substr s pos n = take n (drop pos s)"

function skip_whitespace :: "string \<Rightarrow> nat \<Rightarrow> nat" where
  "skip_whitespace json valueStart =
     (if valueStart < length json \<and> (json ! valueStart = CHR '' '' \<or> json ! valueStart = CHR 0x09)
      then skip_whitespace json (valueStart + 1)
      else valueStart)"
  by pat_completeness auto
termination
  by (relation "measure (\<lambda>(json, valueStart). length json - valueStart)") auto

declare skip_whitespace.simps [simp del]

function scan_value_end :: "string \<Rightarrow> nat \<Rightarrow> nat" where
  "scan_value_end json valueEnd =
     (if valueEnd < length json \<and> json ! valueEnd \<noteq> CHR '','' \<and> json ! valueEnd \<noteq> CHR ''}''
         \<and> json ! valueEnd \<noteq> CHR '']'' \<and> json ! valueEnd \<noteq> CHR '' ''
      then scan_value_end json (valueEnd + 1)
      else valueEnd)"
  by pat_completeness auto
termination
  by (relation "measure (\<lambda>(json, valueEnd). length json - valueEnd)") auto

declare scan_value_end.simps [simp del]

definition ExtractJsonValue :: "string \<Rightarrow> string \<Rightarrow> string" where
  "ExtractJsonValue json key =
     (let searchKey = [dquote] @ key @ [dquote, CHR '':''] in
      case find_str json searchKey 0 of
        None \<Rightarrow> []
      | Some keyPos \<Rightarrow>
          let valueStart = skip_whitespace json (keyPos + length searchKey) in
          if length json \<le> valueStart then []
          else if json ! valueStart = dquote then
            (case find_chr json dquote (valueStart + 1) of
               None \<Rightarrow> []
             | Some valueEnd \<Rightarrow> substr json (valueStart + 1) (valueEnd - (valueStart + 1)))
          else substr json valueStart (scan_value_end json valueStart - valueStart))"

section \<open>Global state and the operating system\<close>

text \<open>
  \<^verbatim>\<open>std::chrono::system_clock::time_point\<close> is a count of clock ticks; the MSVC runtime
  ticks every 100 nanoseconds. Every reading of \<^verbatim>\<open>system_clock::now()\<close> is an input of
  the operation that makes it.
\<close>

type_synonym time_point = int
type_synonym hinternet = nat

definition ticks_per_second :: int where
  "ticks_per_second = 10000000"

definition seconds :: "int \<Rightarrow> int" where
  "seconds n = n * ticks_per_second"

record state =
  g_cachedToken :: string
  g_tokenExpiry :: time_point
  g_tokenTTL :: int
  g_endpointUrl :: wstring
  g_endpointHost :: wstring
  g_endpointPath :: wstring
  g_endpointPort :: int
  g_useHttps :: bool
  g_lastError :: string
  g_hSession :: "hinternet option"
  g_initialized :: bool

definition MAX_RETRIES :: nat where
  "MAX_RETRIES = 3"

definition BASE_RETRY_DELAY_MS :: int where
  "BASE_RETRY_DELAY_MS = 1000"

definition INTERNET_DEFAULT_HTTPS_PORT :: int where
  "INTERNET_DEFAULT_HTTPS_PORT = 443"

definition INTERNET_SCHEME_HTTPS :: int where
  "INTERNET_SCHEME_HTTPS = 2"

definition ERROR_WINHTTP_SECURE_FAILURE :: dword where
  "ERROR_WINHTTP_SECURE_FAILURE = 12175"

definition initial_state :: state where
  "initial_state =
     \<lparr>g_cachedToken = [], g_tokenExpiry = 0, g_tokenTTL = 0,
      g_endpointUrl = widen ''https://api.hedge-edge.com/v1/license/validate'',
      g_endpointHost = [], g_endpointPath = [],
      g_endpointPort = INTERNET_DEFAULT_HTTPS_PORT, g_useHttps = True,
      g_lastError = [], g_hSession = None, g_initialized = False\<rparr>"

text \<open>
  The Win32 and WinHTTP calls are the environment. A call either succeeds with its
  result or fails, and then \<^verbatim>\<open>::GetLastError()\<close> gives the error code.
\<close>

datatype 'a api = Succeeds 'a | Fails dword

record url_components =
  lpszHostName :: wstring
  lpszUrlPath :: wstring
  nPort :: "16 word"
  nScheme :: int

text \<open>
  \<open>MultiByteToWideChar\<close> is \<open>None\<close> when the conversion returns a length \<open>\<le> 0\<close>, and
  otherwise the converted text without its terminator. \<open>WinHttpCrackUrl\<close> is \<open>None\<close> when
  the call returns \<^verbatim>\<open>FALSE\<close>.
\<close>

record os =
  MultiByteToWideChar :: "string \<Rightarrow> wstring option"
  WinHttpCrackUrl :: "wstring \<Rightarrow> url_components option"
  WinHttpOpen :: "hinternet api"

text \<open>
  What WinHTTP does during one call of \<^verbatim>\<open>HttpPost\<close>. \<open>body_data\<close> lists the rounds of
  the read loop in which \<^verbatim>\<open>WinHttpQueryDataAvailable\<close> fails or reports data; after the
  last round it reports 0 bytes.
\<close>

datatype data_step = QueryDataFails dword | ReadData string | ReadDataFails

record winhttp =
  WinHttpConnect :: "unit api"
  WinHttpOpenRequest :: "unit api"
  WinHttpAddRequestHeaders :: "unit api"
  WinHttpSendRequest :: "unit api"
  WinHttpReceiveResponse :: "unit api"
  WinHttpQueryHeaders :: "dword api"
  body_data :: "data_step list"

section \<open>Internal helpers\<close>

text \<open>A \<^verbatim>\<open>const char*\<close> argument is \<open>None\<close> for a null pointer, else the bytes it points to.\<close>

definition Utf8ToWide :: "os \<Rightarrow> string option \<Rightarrow> wstring" where
  "Utf8ToWide os utf8 =
     (case utf8 of
        None \<Rightarrow> []
      | Some u \<Rightarrow>
          if c_str u = [] then []
          else (case MultiByteToWideChar os (c_str u) of None \<Rightarrow> [] | Some result \<Rightarrow> result))"

definition ParseUrl :: "os \<Rightarrow> wstring \<Rightarrow> state \<Rightarrow> bool \<times> state" where
  "ParseUrl os url s =
     (case WinHttpCrackUrl os url of
        None \<Rightarrow> (False, s\<lparr>g_lastError := ''Failed to parse URL''\<rparr>)
      | Some urlComp \<Rightarrow>
          (True, s\<lparr>g_endpointHost := lpszHostName urlComp,
                   g_endpointPath := lpszUrlPath urlComp,
                   g_endpointPort := uint (nPort urlComp),
                   g_useHttps := (nScheme urlComp = INTERNET_SCHEME_HTTPS)\<rparr>))"

text \<open>The read loop of \<^verbatim>\<open>HttpPost\<close>: the body so far, and the error code if a query failed.\<close>

fun read_response :: "data_step list \<Rightarrow> string \<Rightarrow> string \<times> dword option" where
  "read_response [] responseBody = (responseBody, None)"
| "read_response (QueryDataFails e # rest) responseBody = (responseBody, Some e)"
| "read_response (ReadData bytes # rest) responseBody = read_response rest (responseBody @ bytes)"
| "read_response (ReadDataFails # rest) responseBody = read_response rest responseBody"

text \<open>
  \<^verbatim>\<open>HttpPost(requestBody, responseBody, httpStatus)\<close>: the two reference parameters are
  passed in and returned. The \<^verbatim>\<open>throw\<close>s are caught inside the function, so each is a
  \<open>False\<close> result with the error text already stored.
\<close>

definition HttpPost :: "winhttp \<Rightarrow> string \<Rightarrow> string \<Rightarrow> int \<Rightarrow> state \<Rightarrow> bool \<times> string \<times> int \<times> state" where
  "HttpPost w requestBody responseBody httpStatus s =
     (case g_hSession s of
        None \<Rightarrow> (False, responseBody, httpStatus, s\<lparr>g_lastError := ''HTTP session not initialized''\<rparr>)
      | Some hSession \<Rightarrow>
     (case WinHttpConnect w of
        Fails e \<Rightarrow> (False, responseBody, httpStatus,
                    s\<lparr>g_lastError := ''Failed to connect to server: '' @ to_string (uint e)\<rparr>)
      | Succeeds hConnect \<Rightarrow>
     (case WinHttpOpenRequest w of
        Fails e \<Rightarrow> (False, responseBody, httpStatus,
                    s\<lparr>g_lastError := ''Failed to create request: '' @ to_string (uint e)\<rparr>)
      | Succeeds hRequest \<Rightarrow>
     (case WinHttpAddRequestHeaders w of
        Fails e \<Rightarrow> (False, responseBody, httpStatus,
                    s\<lparr>g_lastError := ''Failed to add headers: '' @ to_string (uint e)\<rparr>)
      | Succeeds u1 \<Rightarrow>
     (case WinHttpSendRequest w of
        Fails err \<Rightarrow> (False, responseBody, httpStatus,
                    s\<lparr>g_lastError := (if err = ERROR_WINHTTP_SECURE_FAILURE
                                        then ''TLS/SSL certificate error''
                                        else ''Failed to send request: '' @ to_string (uint err))\<rparr>)
      | Succeeds u2 \<Rightarrow>
     (case WinHttpReceiveResponse w of
        Fails e \<Rightarrow> (False, responseBody, httpStatus,
                    s\<lparr>g_lastError := ''Failed to receive response: '' @ to_string (uint e)\<rparr>)
      | Succeeds u3 \<Rightarrow>
     (case WinHttpQueryHeaders w of
        Fails e \<Rightarrow> (False, responseBody, httpStatus,
                    s\<lparr>g_lastError := ''Failed to get status code: '' @ to_string (uint e)\<rparr>)
      | Succeeds statusCode \<Rightarrow>
     (case read_response (body_data w) [] of
        (body, Some e) \<Rightarrow> (False, body, sint statusCode,
                    s\<lparr>g_lastError := ''Failed to query data: '' @ to_string (uint e)\<rparr>)
      | (body, None) \<Rightarrow> (True, body, sint statusCode, s)))))))))"

section \<open>Exported functions\<close>

text \<open>
  Every exported function holds \<^verbatim>\<open>g_mutex\<close> from entry to exit, so each call is one
  atomic transition of the state.
\<close>

definition InitializeLibrary :: "os \<Rightarrow> state \<Rightarrow> int \<times> state" where
  "InitializeLibrary os s =
     (if g_initialized s then (0, s)
      else (case WinHttpOpen os of
              Fails e \<Rightarrow>
                (- 1, s\<lparr>g_hSession := None,
                        g_lastError := ''Failed to create HTTP session: '' @ to_string (uint e)\<rparr>)
            | Succeeds h \<Rightarrow>
                (case ParseUrl os (g_endpointUrl s) (s\<lparr>g_hSession := Some h\<rparr>) of
                   (False, s1) \<Rightarrow> (- 2, s1\<lparr>g_hSession := None\<rparr>)
                 | (True, s1) \<Rightarrow> (0, s1\<lparr>g_initialized := True\<rparr>))))"

definition ShutdownLibrary :: "state \<Rightarrow> state" where
  "ShutdownLibrary s =
     (if \<not> g_initialized s then s
      else s\<lparr>g_cachedToken := [], g_tokenTTL := 0, g_hSession := None, g_initialized := False\<rparr>)"

definition SetEndpoint :: "os \<Rightarrow> string option \<Rightarrow> state \<Rightarrow> state" where
  "SetEndpoint os url s =
     (if url = None \<or> c_str (the url) = [] then s
      else let wideUrl = Utf8ToWide os url in
           (case ParseUrl os wideUrl s of
              (True, s1) \<Rightarrow> s1\<lparr>g_endpointUrl := wideUrl\<rparr>
            | (False, s1) \<Rightarrow> s1))"

subsection \<open>\<^verbatim>\<open>ValidateLicense\<close>\<close>

text \<open>What a call does to the outside world, in order.\<close>

datatype event = is_Sleep: Sleep int | is_Post: Post string

datatype outcome = Returns int | Throws cpp_exception

text \<open>
  The result of a call: how it ends, the bytes written to the two output buffers
  (\<open>None\<close> when nothing is written), the events, and the state it leaves.
\<close>

record validate_result =
  outcome :: outcome
  token_buffer :: "string option"
  error_buffer :: "string option"
  events :: "event list"
  final :: state

text \<open>\<^verbatim>\<open>if (out) strncpy(out, text.c_str(), n)\<close>\<close>

definition copy_out :: "bool \<Rightarrow> string \<Rightarrow> nat \<Rightarrow> string option" where
  "copy_out out text n = (if out then Some (strncpy text n) else None)"

text \<open>Lines 429 to 437: the per-call endpoint override; the result of the parse is dropped.\<close>

definition ApplyOverride :: "os \<Rightarrow> string option \<Rightarrow> state \<Rightarrow> state" where
  "ApplyOverride os endpointUrl s =
     (if endpointUrl \<noteq> None \<and> c_str (the endpointUrl) \<noteq> [] then
        let wideUrl = Utf8ToWide os endpointUrl in
        if wideUrl \<noteq> [] then snd (ParseUrl os wideUrl s) else s
      else s)"

text \<open>\<^verbatim>\<open>key ? key : ""\<close> converted to \<^verbatim>\<open>std::string\<close>\<close>

definition arg_string :: "string option \<Rightarrow> string" where
  "arg_string p = (case p of None \<Rightarrow> [] | Some bytes \<Rightarrow> c_str bytes)"

definition quoted :: "string \<Rightarrow> string" where
  "quoted str = [dquote] @ str @ [dquote]"

text \<open>Lines 439 to 450: the request body.\<close>

definition BuildRequest :: "string option \<Rightarrow> string option \<Rightarrow> string option \<Rightarrow> string option \<Rightarrow> string" where
  "BuildRequest key account broker deviceId =
     ''{''
     @ quoted ''licenseKey'' @ '':'' @ quoted (EscapeJson (arg_string key)) @ '',''
     @ quoted ''accountId'' @ '':'' @ quoted (EscapeJson (arg_string account)) @ '',''
     @ quoted ''broker'' @ '':'' @ quoted (EscapeJson (arg_string broker)) @ '',''
     @ quoted ''deviceId'' @ '':'' @ quoted (EscapeJson (arg_string deviceId)) @ '',''
     @ quoted ''platform'' @ '':'' @ quoted ''MT5'' @ '',''
     @ quoted ''version'' @ '':'' @ quoted ''1.0.0''
     @ ''}''"

text \<open>
  The retry loop. \<open>net attempt\<close> is what WinHTTP does during the call of \<^verbatim>\<open>HttpPost\<close>
  made in iteration \<open>attempt\<close>. The loop carries \<open>success\<close>, the two locals that
  \<^verbatim>\<open>HttpPost\<close> writes through its references, the state and the events so far.
\<close>

function retry_loop ::
  "(nat \<Rightarrow> winhttp) \<Rightarrow> string \<Rightarrow> nat \<Rightarrow> bool \<times> string \<times> int \<times> state \<Rightarrow> event list
     \<Rightarrow> (bool \<times> string \<times> int \<times> state) \<times> event list" where
  "retry_loop net requestBody attempt (success, responseBody, httpStatus, s) evs =
     (if attempt < MAX_RETRIES \<and> \<not> success then
        retry_loop net requestBody (attempt + 1)
          (HttpPost (net attempt) requestBody responseBody httpStatus s)
          (evs @ (if attempt > 0 then [Sleep (BASE_RETRY_DELAY_MS * 2 ^ (attempt - 1))] else [])
               @ [Post requestBody])
      else ((success, responseBody, httpStatus, s), evs))"
  by pat_completeness auto
termination
  by (relation "measure (\<lambda>(net, requestBody, attempt, vars, evs). MAX_RETRIES - attempt)") auto

declare retry_loop.simps [simp del]

text \<open>Lines 508 to 517: the TTL of a valid response; \<^verbatim>\<open>std::stoi\<close> may throw.\<close>

definition parse_ttl :: "string \<Rightarrow> cpp_exception + int" where
  "parse_ttl ttlStr =
     (if ttlStr \<noteq> [] then
        (case stoi ttlStr of
           Inl e \<Rightarrow> Inl e
         | Inr ttl \<Rightarrow> Inr (if ttl \<le> 0 then 900 else ttl))
      else Inr 900)"

text \<open>
  \<open>now\<close> is the clock reading at line 418 and \<open>now2\<close> the one at line 522.
  \<open>outToken\<close> and \<open>outError\<close> say whether the two output pointers are non-null.
\<close>

definition ValidateLicense ::
  "os \<Rightarrow> (nat \<Rightarrow> winhttp) \<Rightarrow> time_point \<Rightarrow> time_point
     \<Rightarrow> string option \<Rightarrow> string option \<Rightarrow> string option \<Rightarrow> string option \<Rightarrow> string option
     \<Rightarrow> bool \<Rightarrow> bool \<Rightarrow> state \<Rightarrow> validate_result" where
  "ValidateLicense os net now now2 key account broker deviceId endpointUrl outToken outError s =
     (if \<not> g_initialized s then
        \<lparr>outcome = Returns (- 1), token_buffer = None,
         error_buffer = copy_out outError ''Library not initialized'' 255,
         events = [], final = s\<rparr>
      else if g_cachedToken s \<noteq> [] \<and> now < g_tokenExpiry s then
        \<lparr>outcome = Returns 0, token_buffer = copy_out outToken (g_cachedToken s) 511,
         error_buffer = None, events = [], final = s\<rparr>
      else
        let s1 = ApplyOverride os endpointUrl s;
            requestBody = BuildRequest key account broker deviceId
        in (case retry_loop net requestBody 0 (False, [], 0, s1) [] of
              ((success, responseBody, httpStatus, s2), evs) \<Rightarrow>
          if \<not> success then
            \<lparr>outcome = Returns (- 2), token_buffer = None,
             error_buffer = copy_out outError (g_lastError s2) 255,
             events = evs, final = s2\<rparr>
          else if httpStatus \<noteq> 200 then
            let s3 = s2\<lparr>g_lastError := ''HTTP '' @ to_string httpStatus @ '': '' @ responseBody\<rparr>
            in \<lparr>outcome = Returns (- 3), token_buffer = None,
                error_buffer = copy_out outError (g_lastError s3) 255,
                events = evs, final = s3\<rparr>
          else if ExtractJsonValue responseBody ''valid'' \<noteq> ''true'' then
            let message = ExtractJsonValue responseBody ''message'';
                s3 = s2\<lparr>g_lastError := (if message = [] then ''License invalid'' else message)\<rparr>
            in \<lparr>outcome = Returns (- 4), token_buffer = None,
                error_buffer = copy_out outError (g_lastError s3) 255,
                events = evs, final = s3\<lparr>g_cachedToken := [], g_tokenTTL := 0\<rparr>\<rparr>
          else
            let token = ExtractJsonValue responseBody ''token'';
                ttlStr = ExtractJsonValue responseBody ''ttlSeconds''
            in (case parse_ttl ttlStr of
                  Inl e \<Rightarrow>
                    \<lparr>outcome = Throws e, token_buffer = None, error_buffer = None,
                     events = evs, final = s2\<rparr>
                | Inr ttl \<Rightarrow>
                    \<lparr>outcome = Returns 0, token_buffer = copy_out outToken token 511,
                     error_buffer = None, events = evs,
                     final = s2\<lparr>g_cachedToken := token, g_tokenTTL := ttl,
                                g_tokenExpiry := now2 + seconds ttl, g_lastError := []\<rparr>\<rparr>)))"

subsection \<open>Token cache queries\<close>

text \<open>
  \<^verbatim>\<open>GetCachedToken\<close> returns its code and the bytes written to \<open>outToken\<close>:
  \<open>tokenLen - 1\<close> bytes by \<^verbatim>\<open>strncpy\<close> and the terminator at index \<open>tokenLen - 1\<close>.
\<close>

definition GetCachedToken :: "time_point \<Rightarrow> bool \<Rightarrow> int \<Rightarrow> state \<Rightarrow> int \<times> string option" where
  "GetCachedToken now outToken tokenLen s =
     (if g_cachedToken s = [] then (- 1, None)
      else if now \<ge> g_tokenExpiry s then (- 2, None)
      else (0, if outToken \<and> tokenLen > 0
               then Some (strncpy (g_cachedToken s) (nat (tokenLen - 1)) @ [NUL])
               else None))"

definition IsTokenValid :: "time_point \<Rightarrow> state \<Rightarrow> int" where
  "IsTokenValid now s =
     (if g_cachedToken s = [] then 0
      else if now < g_tokenExpiry s then 1 else 0)"

text \<open>
  \<^verbatim>\<open>duration_cast<seconds>\<close> divides the tick count and truncates towards zero;
  \<^verbatim>\<open>static_cast<int>\<close> keeps the low 32 bits of the 64-bit count.
\<close>

definition duration_cast_seconds :: "int \<Rightarrow> int" where
  "duration_cast_seconds d =
     (if 0 \<le> d then d div ticks_per_second else - ((- d) div ticks_per_second))"

definition static_cast_int :: "int \<Rightarrow> int" where
  "static_cast_int x = sint (word_of_int x :: 32 word)"

definition GetTokenTTL :: "time_point \<Rightarrow> state \<Rightarrow> int" where
  "GetTokenTTL now s =
     (if g_cachedToken s = [] then 0
      else if now \<ge> g_tokenExpiry s then 0
      else static_cast_int (duration_cast_seconds (g_tokenExpiry s - now)))"

definition ClearCache :: "state \<Rightarrow> state" where
  "ClearCache s = s\<lparr>g_cachedToken := [], g_tokenTTL := 0, g_tokenExpiry := 0, g_lastError := []\<rparr>"

definition GetLastError :: "bool \<Rightarrow> int \<Rightarrow> state \<Rightarrow> string option" where
  "GetLastError outError errorLen s =
     (if outError \<and> errorLen > 0
      then Some (strncpy (g_lastError s) (nat (errorLen - 1)) @ [NUL])
      else None)"

text \<open>\<^verbatim>\<open>DllMain\<close> on \<^verbatim>\<open>DLL_PROCESS_DETACH\<close>\<close>

definition DllMain_detach :: "state \<Rightarrow> state" where
  "DllMain_detach s = (if g_initialized s then ShutdownLibrary s else s)"

text \<open>The states the library can be in: any sequence of calls from the loaded DLL.\<close>

inductive reachable :: "state \<Rightarrow> bool" where
  loaded: "reachable initial_state"
| initialize: "reachable s \<Longrightarrow> reachable (snd (InitializeLibrary os s))"
| shutdown: "reachable s \<Longrightarrow> reachable (ShutdownLibrary s)"
| set_endpoint: "reachable s \<Longrightarrow> reachable (SetEndpoint os url s)"
| validate: "reachable s \<Longrightarrow>
    reachable (final (ValidateLicense os net now now2 key account broker deviceId endpointUrl outToken outError s))"
| clear_cache: "reachable s \<Longrightarrow> reachable (ClearCache s)"
| detach: "reachable s \<Longrightarrow> reachable (DllMain_detach s)"

section \<open>Notions used in the statements\<close>

text \<open>
  One call of \<^verbatim>\<open>HttpPost\<close> as its caller sees it: whether the exchange completed, and
  the body, the status and the error text it leaves.
\<close>

definition transport_ok :: "state \<Rightarrow> winhttp \<Rightarrow> bool" where
  "transport_ok s w = fst (HttpPost w [] [] 0 s)"

definition transport_body :: "state \<Rightarrow> winhttp \<Rightarrow> string" where
  "transport_body s w = fst (snd (HttpPost w [] [] 0 s))"

definition transport_status :: "state \<Rightarrow> winhttp \<Rightarrow> int" where
  "transport_status s w = fst (snd (snd (HttpPost w [] [] 0 s)))"

definition transport_error :: "state \<Rightarrow> winhttp \<Rightarrow> string" where
  "transport_error s w = g_lastError (snd (snd (snd (HttpPost w [] [] 0 s))))"

text \<open>
  The first attempt that completes, among the \<open>MAX_RETRIES\<close> the loop can make, answers
  with this status and body.
\<close>

definition exchange_completes :: "state \<Rightarrow> (nat \<Rightarrow> winhttp) \<Rightarrow> int \<Rightarrow> string \<Rightarrow> bool" where
  "exchange_completes s net status body =
     (\<exists>i<MAX_RETRIES. (\<forall>j<i. \<not> transport_ok s (net j)) \<and> transport_ok s (net i)
        \<and> transport_status s (net i) = status \<and> transport_body s (net i) = body)"

text \<open>The active endpoint: host, path, port and scheme.\<close>

definition endpoint :: "state \<Rightarrow> wstring \<times> wstring \<times> int \<times> bool" where
  "endpoint s = (g_endpointHost s, g_endpointPath s, g_endpointPort s, g_useHttps s)"

text \<open>The token cache: value, TTL and expiry.\<close>

definition token_cache :: "state \<Rightarrow> string \<times> int \<times> time_point" where
  "token_cache s = (g_cachedToken s, g_tokenTTL s, g_tokenExpiry s)"

text \<open>A span of clock ticks in whole seconds, rounded up.\<close>

definition ceil_seconds :: "int \<Rightarrow> int" where
  "ceil_seconds d = - ((- d) div ticks_per_second)"

subsection \<open>A concrete environment\<close>

definition demo_os :: os where
  "demo_os =
     \<lparr>MultiByteToWideChar = (\<lambda>u. Some (widen u)),
      WinHttpCrackUrl = (\<lambda>url.
        if url = widen ''https://api.hedge-edge.com/v1/license/validate''
        then Some \<lparr>lpszHostName = widen ''api.hedge-edge.com'',
                   lpszUrlPath = widen ''/v1/license/validate'',
                   nPort = 443, nScheme = 2\<rparr>
        else None),
      WinHttpOpen = Succeeds 1\<rparr>"

definition respond :: "dword \<Rightarrow> string \<Rightarrow> winhttp" where
  "respond status body =
     \<lparr>WinHttpConnect = Succeeds (), WinHttpOpenRequest = Succeeds (),
      WinHttpAddRequestHeaders = Succeeds (), WinHttpSendRequest = Succeeds (),
      WinHttpReceiveResponse = Succeeds (), WinHttpQueryHeaders = Succeeds status,
      body_data = [ReadData body]\<rparr>"

definition cannot_connect :: winhttp where
  "cannot_connect = (respond 0 [])\<lparr>WinHttpConnect := Fails 12029\<rparr>"

definition valid_response :: "string \<Rightarrow> string" where
  "valid_response ttl =
     ''{'' @ quoted ''valid'' @ '':true,'' @ quoted ''token'' @ '':'' @ quoted ''tok-abc''
     @ '','' @ quoted ''ttlSeconds'' @ '':'' @ ttl @ ''}''"

definition invalid_response :: string where
  "invalid_response = ''{'' @ quoted ''message'' @ '':'' @ quoted ''License expired'' @ ''}''"

definition no_ttl_response :: string where
  "no_ttl_response =
     ''{'' @ quoted ''valid'' @ '':true,'' @ quoted ''token'' @ '':'' @ quoted ''tok-abc'' @ ''}''"

definition ready_state :: state where
  "ready_state = snd (InitializeLibrary demo_os initial_state)"

definition cached_state :: state where
  "cached_state =
     final (ValidateLicense demo_os (\<lambda>i. respond 200 (valid_response ''60'')) 0 5
              (Some ''KEY1'') (Some ''ACC1'') (Some ''BROKERX'') (Some ''DEV1'') None True True
              ready_state)"

section \<open>Properties\<close>

lemma EscapeJson_append: "EscapeJson (xs @ ys) = EscapeJson xs @ EscapeJson ys"
  by (induction xs) simp_all

subsection \<open>The transport and the retry loop\<close>

lemmas transport_defs = transport_ok_def transport_body_def transport_status_def transport_error_def

lemma HttpPost_ok:
  "transport_ok s w \<Longrightarrow>
     HttpPost w b rb st s = (True, transport_body s w, transport_status s w, s)"
  unfolding transport_defs HttpPost_def
  by (simp split: option.splits api.splits prod.splits)

lemma HttpPost_fails:
  "\<not> transport_ok s w \<Longrightarrow>
     \<exists>rb' st'. HttpPost w b rb st s = (False, rb', st', s\<lparr>g_lastError := transport_error s w\<rparr>)"
  unfolding transport_defs HttpPost_def
  by (simp split: option.splits api.splits prod.splits)

lemma transport_session:
  assumes "g_hSession s' = g_hSession s"
  shows "transport_ok s' w = transport_ok s w"
    and "transport_body s' w = transport_body s w"
    and "transport_status s' w = transport_status s w"
    and "\<not> transport_ok s w \<Longrightarrow> transport_error s' w = transport_error s w"
  using assms unfolding transport_defs HttpPost_def
  by (simp_all split: option.splits api.splits prod.splits)


text \<open>Whether an exchange completes does not depend on the status code it answers with.\<close>

lemma transport_ok_any_status:
  "transport_ok s (w\<lparr>WinHttpQueryHeaders := Succeeds status\<rparr>) =
   transport_ok s (w\<lparr>WinHttpQueryHeaders := Succeeds status'\<rparr>)"
  unfolding transport_ok_def HttpPost_def
  by (simp split: option.splits api.splits prod.splits)

lemma retry_loop_done:
  "retry_loop net b a (True, rb, st, s) evs = ((True, rb, st, s), evs)"
  by (subst retry_loop.simps) simp

lemma retry_loop_exhausted:
  "retry_loop net b 3 (ok, rb, st, s) evs = ((ok, rb, st, s), evs)"
  by (subst retry_loop.simps) (simp add: MAX_RETRIES_def)

lemma retry_loop_step0:
  "retry_loop net b 0 (False, rb, st, s) evs =
     retry_loop net b (Suc 0) (HttpPost (net 0) b rb st s) (evs @ [Post b])"
  by (subst retry_loop.simps) (simp add: MAX_RETRIES_def)

lemma retry_loop_step1:
  "retry_loop net b (Suc 0) (False, rb, st, s) evs =
     retry_loop net b 2 (HttpPost (net (Suc 0)) b rb st s) (evs @ [Sleep 1000, Post b])"
  by (subst retry_loop.simps) (simp add: MAX_RETRIES_def BASE_RETRY_DELAY_MS_def numeral_2_eq_2)

lemma retry_loop_step2:
  "retry_loop net b 2 (False, rb, st, s) evs =
     retry_loop net b 3 (HttpPost (net 2) b rb st s) (evs @ [Sleep 2000, Post b])"
  by (subst retry_loop.simps) (simp add: MAX_RETRIES_def BASE_RETRY_DELAY_MS_def)

lemmas retry_loop_steps = retry_loop_step0 retry_loop_step1 retry_loop_step2

lemma retry_loop_result:
  "\<exists>rb st. retry_loop net b 0 (False, [], 0, s) [] =
     (if transport_ok s (net 0) then
        ((True, transport_body s (net 0), transport_status s (net 0), s), [Post b])
      else if transport_ok s (net 1) then
        ((True, transport_body s (net 1), transport_status s (net 1),
          s\<lparr>g_lastError := transport_error s (net 0)\<rparr>),
         [Post b, Sleep 1000, Post b])
      else if transport_ok s (net 2) then
        ((True, transport_body s (net 2), transport_status s (net 2),
          s\<lparr>g_lastError := transport_error s (net 1)\<rparr>),
         [Post b, Sleep 1000, Post b, Sleep 2000, Post b])
      else
        ((False, rb, st, s\<lparr>g_lastError := transport_error s (net 2)\<rparr>),
         [Post b, Sleep 1000, Post b, Sleep 2000, Post b]))"
proof (cases "transport_ok s (net 0)")
  case True
  then show ?thesis
    by (simp add: retry_loop_steps HttpPost_ok retry_loop_done)
next
  case f0: False
  then obtain rb0 st0 where
    p0: "HttpPost (net 0) b [] 0 s = (False, rb0, st0, s\<lparr>g_lastError := transport_error s (net 0)\<rparr>)"
    using HttpPost_fails by blast
  let ?s0 = "s\<lparr>g_lastError := transport_error s (net 0)\<rparr>"
  have sess0: "g_hSession ?s0 = g_hSession s" by simp
  show ?thesis
  proof (cases "transport_ok s (net 1)")
    case True
    then have "transport_ok ?s0 (net 1)"
      using transport_session(1) [OF sess0] by simp
    then have "HttpPost (net 1) b rb0 st0 ?s0 = (True, transport_body s (net 1), transport_status s (net 1), ?s0)"
      using HttpPost_ok [of ?s0 "net 1"] transport_session(2,3) [OF sess0] by simp
    with f0 True p0 show ?thesis
      by (simp add: retry_loop_steps retry_loop_done)
  next
    case f1: False
    then have nf1: "\<not> transport_ok ?s0 (net 1)"
      using transport_session(1) [OF sess0] by simp
    then obtain rb1 st1 where
      "HttpPost (net 1) b rb0 st0 ?s0 = (False, rb1, st1, ?s0\<lparr>g_lastError := transport_error ?s0 (net 1)\<rparr>)"
      using HttpPost_fails by blast
    then have p1: "HttpPost (net 1) b rb0 st0 ?s0 = (False, rb1, st1, s\<lparr>g_lastError := transport_error s (net 1)\<rparr>)"
      using transport_session(4) [OF sess0 f1] by simp
    let ?s1 = "s\<lparr>g_lastError := transport_error s (net 1)\<rparr>"
    have sess1: "g_hSession ?s1 = g_hSession s" by simp
    show ?thesis
    proof (cases "transport_ok s (net 2)")
      case True
      then have "transport_ok ?s1 (net 2)"
        using transport_session(1) [OF sess1] by simp
      then have "HttpPost (net 2) b rb1 st1 ?s1 = (True, transport_body s (net 2), transport_status s (net 2), ?s1)"
        using HttpPost_ok [of ?s1 "net 2"] transport_session(2,3) [OF sess1] by simp
      with f0 f1 True p0 p1 show ?thesis
        by (simp add: retry_loop_steps retry_loop_done)
    next
      case f2: False
      then have "\<not> transport_ok ?s1 (net 2)"
        using transport_session(1) [OF sess1] by simp
      then obtain rb2 st2 where
        "HttpPost (net 2) b rb1 st1 ?s1 = (False, rb2, st2, ?s1\<lparr>g_lastError := transport_error ?s1 (net 2)\<rparr>)"
        using HttpPost_fails by blast
      then have p2: "HttpPost (net 2) b rb1 st1 ?s1 = (False, rb2, st2, s\<lparr>g_lastError := transport_error s (net 2)\<rparr>)"
        using transport_session(4) [OF sess1 f2] by simp
      have "retry_loop net b 0 (False, [], 0, s) [] =
              ((False, rb2, st2, s\<lparr>g_lastError := transport_error s (net 2)\<rparr>),
               [Post b, Sleep 1000, Post b, Sleep 2000, Post b])"
        using p0 p1 p2
        by (simp add: retry_loop_steps retry_loop_exhausted)
      with f0 f1 f2 show ?thesis by auto
    qed
  qed
qed

lemma loop_first:
  "transport_ok s (net 0) \<Longrightarrow>
     retry_loop net b 0 (False, [], 0, s) [] =
       ((True, transport_body s (net 0), transport_status s (net 0), s), [Post b])"
  using retry_loop_result [of net b s] by auto

lemma loop_second:
  "\<not> transport_ok s (net 0) \<Longrightarrow> transport_ok s (net 1) \<Longrightarrow>
     retry_loop net b 0 (False, [], 0, s) [] =
       ((True, transport_body s (net 1), transport_status s (net 1),
         s\<lparr>g_lastError := transport_error s (net 0)\<rparr>), [Post b, Sleep 1000, Post b])"
  using retry_loop_result [of net b s] by auto

lemma loop_third:
  "\<not> transport_ok s (net 0) \<Longrightarrow> \<not> transport_ok s (net 1) \<Longrightarrow> transport_ok s (net 2) \<Longrightarrow>
     retry_loop net b 0 (False, [], 0, s) [] =
       ((True, transport_body s (net 2), transport_status s (net 2),
         s\<lparr>g_lastError := transport_error s (net 1)\<rparr>),
        [Post b, Sleep 1000, Post b, Sleep 2000, Post b])"
  using retry_loop_result [of net b s] by auto

lemma loop_exhausted:
  "\<not> transport_ok s (net 0) \<Longrightarrow> \<not> transport_ok s (net 1) \<Longrightarrow> \<not> transport_ok s (net 2) \<Longrightarrow>
     \<exists>rb st. retry_loop net b 0 (False, [], 0, s) [] =
       ((False, rb, st, s\<lparr>g_lastError := transport_error s (net 2)\<rparr>),
        [Post b, Sleep 1000, Post b, Sleep 2000, Post b])"
  using retry_loop_result [of net b s] by auto

lemma loop_completes:
  assumes "exchange_completes s net status body"
  shows "\<exists>e evs. retry_loop net b 0 (False, [], 0, s) [] =
           ((True, body, status, s\<lparr>g_lastError := e\<rparr>), evs)"
proof -
  from assms obtain i where i: "i < 3" "\<forall>j<i. \<not> transport_ok s (net j)" "transport_ok s (net i)"
    "transport_status s (net i) = status" "transport_body s (net i) = body"
    unfolding exchange_completes_def MAX_RETRIES_def by blast
  from i(1) consider "i = 0" | "i = 1" | "i = 2" by linarith
  then show ?thesis
  proof cases
    case 1
    with i have "retry_loop net b 0 (False, [], 0, s) [] =
        ((True, body, status, s\<lparr>g_lastError := g_lastError s\<rparr>), [Post b])"
      by (simp add: loop_first)
    then show ?thesis by blast
  next
    case 2
    with i have "\<not> transport_ok s (net 0)" "transport_ok s (net 1)" by auto
    from loop_second [OF this] 2 i show ?thesis by auto
  next
    case 3
    with i have "\<not> transport_ok s (net 0)" "\<not> transport_ok s (net 1)" "transport_ok s (net 2)" by auto
    from loop_third [OF this] 3 i show ?thesis by auto
  qed
qed

subsection \<open>Frame lemmas and the invariant of reachable states\<close>

lemma ApplyOverride_frame:
  "g_initialized (ApplyOverride os e s) = g_initialized s"
  "g_hSession (ApplyOverride os e s) = g_hSession s"
  "g_cachedToken (ApplyOverride os e s) = g_cachedToken s"
  "g_tokenTTL (ApplyOverride os e s) = g_tokenTTL s"
  "g_tokenExpiry (ApplyOverride os e s) = g_tokenExpiry s"
  by (simp_all add: ApplyOverride_def ParseUrl_def Let_def split: option.splits)

lemma transport_ApplyOverride:
  "transport_ok (ApplyOverride os e s) w = transport_ok s w"
  "transport_body (ApplyOverride os e s) w = transport_body s w"
  "transport_status (ApplyOverride os e s) w = transport_status s w"
  "\<not> transport_ok s w \<Longrightarrow> transport_error (ApplyOverride os e s) w = transport_error s w"
  using transport_session [of "ApplyOverride os e s" s w] by (simp_all add: ApplyOverride_frame)

lemma exchange_completes_ApplyOverride:
  "exchange_completes (ApplyOverride os e s) net status body = exchange_completes s net status body"
  by (simp add: exchange_completes_def transport_ApplyOverride)

lemma ValidateLicense_uninitialized:
  "\<not> g_initialized s \<Longrightarrow>
     final (ValidateLicense os net now now2 key account broker deviceId e outToken outError s) = s"
  by (simp add: ValidateLicense_def)

lemma ValidateLicense_frame:
  "g_initialized (final (ValidateLicense os net now now2 key account broker deviceId e outToken outError s)) = g_initialized s"
  "g_hSession (final (ValidateLicense os net now now2 key account broker deviceId e outToken outError s)) = g_hSession s"
proof -
  let ?s1 = "ApplyOverride os e s" and ?b = "BuildRequest key account broker deviceId"
  obtain ok rb st s2 evs where L: "retry_loop net ?b 0 (False, [], 0, ?s1) [] = ((ok, rb, st, s2), evs)"
    by (metis prod.exhaust)
  have "\<exists>err. s2 = ?s1\<lparr>g_lastError := err\<rparr>"
    using retry_loop_result [of net ?b ?s1] L
    by (auto split: if_splits intro: exI [of _ "g_lastError ?s1"])
  then obtain err where s2: "s2 = ?s1\<lparr>g_lastError := err\<rparr>" ..
  show "g_initialized (final (ValidateLicense os net now now2 key account broker deviceId e outToken outError s)) = g_initialized s"
    by (simp add: ValidateLicense_def Let_def L s2 ApplyOverride_frame split: sum.splits)
  show "g_hSession (final (ValidateLicense os net now now2 key account broker deviceId e outToken outError s)) = g_hSession s"
    by (simp add: ValidateLicense_def Let_def L s2 ApplyOverride_frame split: sum.splits)
qed

lemma reachable_invariant:
  "reachable s \<Longrightarrow>
     (g_cachedToken s \<noteq> [] \<longrightarrow> g_initialized s) \<and> (g_initialized s \<longrightarrow> g_hSession s \<noteq> None)"
proof (induction rule: reachable.induct)
  case loaded
  show ?case by (simp add: initial_state_def)
next
  case (initialize s os)
  then show ?case
    by (auto simp: InitializeLibrary_def ParseUrl_def split: api.splits option.splits)
next
  case (shutdown s)
  then show ?case by (auto simp: ShutdownLibrary_def)
next
  case (set_endpoint s os url)
  then show ?case
    by (auto simp: SetEndpoint_def ParseUrl_def Let_def split: option.splits)
next
  case (validate s os net now now2 key account broker deviceId endpointUrl outToken outError)
  show ?case
  proof (cases "g_initialized s")
    case True
    with validate show ?thesis by (auto simp: ValidateLicense_frame)
  next
    case False
    with validate show ?thesis by (auto simp: ValidateLicense_uninitialized)
  qed
next
  case (clear_cache s)
  then show ?case by (auto simp: ClearCache_def)
next
  case (detach s)
  then show ?case by (auto simp: DllMain_detach_def ShutdownLibrary_def)
qed

subsection \<open>C strings and the concrete states\<close>

lemma takeWhile_pad:
  assumes "\<And>x. x \<in> set xs \<Longrightarrow> x \<noteq> NUL"
  shows "takeWhile (\<lambda>c. c \<noteq> NUL) (xs @ replicate k NUL @ [NUL]) = xs"
proof -
  have "takeWhile (\<lambda>c. c \<noteq> NUL) (replicate k NUL @ [NUL]) = []"
    by (cases k) simp_all
  moreover have "takeWhile (\<lambda>c. c \<noteq> NUL) (xs @ replicate k NUL @ [NUL]) =
      xs @ takeWhile (\<lambda>c. c \<noteq> NUL) (replicate k NUL @ [NUL])"
    by (rule takeWhile_append2) (use assms in blast)
  ultimately show ?thesis by simp
qed

lemma c_str_no_NUL: "x \<in> set (take n (c_str t)) \<Longrightarrow> x \<noteq> NUL"
  unfolding c_str_def by (auto dest!: in_set_takeD set_takeWhileD)

lemma c_str_terminated: "c_str (strncpy t n @ [NUL]) = take n (c_str t)"
proof -
  have "takeWhile (\<lambda>c. c \<noteq> NUL) (take n (c_str t) @ replicate (n - length (c_str t)) NUL @ [NUL])
          = take n (c_str t)"
    by (rule takeWhile_pad) (rule c_str_no_NUL)
  then show ?thesis by (simp add: strncpy_def c_str_def)
qed

lemma c_str_strncpy:
  assumes "length (c_str t) < n"
  shows "c_str (strncpy t n) = c_str t"
proof -
  from assms obtain k where k: "n - length (c_str t) = Suc k"
    by (metis Suc_diff_Suc)
  have "takeWhile (\<lambda>c. c \<noteq> NUL) (take n (c_str t) @ replicate k NUL @ [NUL]) = take n (c_str t)"
    by (rule takeWhile_pad) (rule c_str_no_NUL)
  moreover have "replicate (Suc k) NUL = replicate k NUL @ [NUL]"
    by (simp add: replicate_append_same)
  ultimately show ?thesis
    using assms k by (simp add: strncpy_def c_str_def)
qed

lemma ready_reachable: "reachable ready_state"
  unfolding ready_state_def by (rule reachable.initialize [OF reachable.loaded])

lemma cached_reachable: "reachable cached_state"
  unfolding cached_state_def by (rule reachable.validate [OF ready_reachable])

lemma exchange_completes_first:
  "transport_ok s (net 0) \<Longrightarrow>
     exchange_completes s net (transport_status s (net 0)) (transport_body s (net 0))"
  unfolding exchange_completes_def MAX_RETRIES_def by (intro exI [of _ 0]) simp

lemma respond_completes:
  assumes "g_hSession s \<noteq> None"
  shows "exchange_completes s (\<lambda>i. respond status body) (sint status) body"
proof -
  from assms have "transport_ok s (respond status body)"
    and "transport_status s (respond status body) = sint status"
    and "transport_body s (respond status body) = body"
    by (auto simp: transport_defs HttpPost_def respond_def)
  then show ?thesis
    using exchange_completes_first [of s "\<lambda>i. respond status body"] by simp
qed

subsection \<open>Facts about the concrete environment\<close>

lemma sint_200: "sint (200 :: dword) = 200" by simp
lemma sint_503: "sint (503 :: dword) = 503" by simp

lemma ready_session: "g_hSession ready_state \<noteq> None" by code_simp
lemma cached_session: "g_hSession cached_state \<noteq> None" by code_simp
lemma ready_initialized: "g_initialized ready_state" by code_simp
lemma cached_initialized: "g_initialized cached_state" by code_simp
lemma ready_miss: "\<not> (g_cachedToken ready_state \<noteq> [] \<and> 0 < g_tokenExpiry ready_state)" by code_simp

subsection \<open>Buffers, casts and the endpoint\<close>

lemma length_strncpy: "length (strncpy src n) = n"
  by (simp add: strncpy_def)

lemma static_cast_int_id:
  "0 \<le> x \<Longrightarrow> x < 2 ^ 31 \<Longrightarrow> static_cast_int x = x"
  by (simp add: static_cast_int_def sint_sbintrunc' signed_take_bit_int_eq_self)

lemma ValidateLicense_endpoint:
  "endpoint (final (ValidateLicense os net now now2 key account broker deviceId e outToken outError s)) =
     (if g_initialized s \<and> \<not> (g_cachedToken s \<noteq> [] \<and> now < g_tokenExpiry s)
      then endpoint (ApplyOverride os e s) else endpoint s)"
proof -
  let ?s1 = "ApplyOverride os e s" and ?b = "BuildRequest key account broker deviceId"
  obtain ok rb st s2 evs where L: "retry_loop net ?b 0 (False, [], 0, ?s1) [] = ((ok, rb, st, s2), evs)"
    by (metis prod.exhaust)
  have "\<exists>err. s2 = ?s1\<lparr>g_lastError := err\<rparr>"
    using retry_loop_result [of net ?b ?s1] L
    by (auto split: if_splits intro: exI [of _ "g_lastError ?s1"])
  then obtain err where s2: "s2 = ?s1\<lparr>g_lastError := err\<rparr>" ..
  show ?thesis
    by (simp add: ValidateLicense_def Let_def L s2 endpoint_def split: sum.splits)
qed

lemma ApplyOverride_endpoint:
  "WinHttpCrackUrl os (Utf8ToWide os e) = None \<Longrightarrow> endpoint (ApplyOverride os e s) = endpoint s"
  by (simp add: ApplyOverride_def ParseUrl_def Let_def endpoint_def)

lemma special_chars_low:
  "(of_char dquote :: int) = 34" "(of_char backslash :: int) = 92"
  "(of_char (CHR 0x08) :: int) = 8" "(of_char (CHR 0x0C) :: int) = 12"
  "(of_char (CHR 0x0A) :: int) = 10" "(of_char (CHR 0x0D) :: int) = 13"
  "(of_char (CHR 0x09) :: int) = 9"
  by (simp_all add: dquote_def backslash_def)

lemma escape_char_high_byte:
  assumes "128 \<le> (of_char c :: int)"
  shows "escape_char c = sprintf_u04x (of_char c)"
proof -
  have "c \<noteq> dquote" "c \<noteq> backslash" "c \<noteq> CHR 0x08" "c \<noteq> CHR 0x0C" "c \<noteq> CHR 0x0A"
    "c \<noteq> CHR 0x0D" "c \<noteq> CHR 0x09"
    using assms special_chars_low by fastforce+
  moreover have "(of_char c :: int) < 256"
    by (metis of_char_mod_256 pos_mod_bound zero_less_numeral)
  then have "char_value c < 0x20"
    using assms by (simp add: char_value_def)
  ultimately show ?thesis
    unfolding escape_char_def by (simp only: if_False if_True)
qed

lemma stoi_failure_escapes:
  assumes "g_initialized s" and "\<not> (g_cachedToken s \<noteq> [] \<and> now < g_tokenExpiry s)"
    and "exchange_completes s net 200 body"
    and "ExtractJsonValue body ''valid'' = ''true''"
    and "ExtractJsonValue body ''ttlSeconds'' \<noteq> []"
    and "stoi (ExtractJsonValue body ''ttlSeconds'') = Inl ex"
  shows "outcome (ValidateLicense os net now now2 key account broker deviceId endpointUrl outToken outError s)
           = Throws ex"
proof -
  let ?s1 = "ApplyOverride os endpointUrl s" and ?b = "BuildRequest key account broker deviceId"
  from assms(3) have "exchange_completes ?s1 net 200 body"
    by (simp add: exchange_completes_ApplyOverride)
  then obtain e evs where
    "retry_loop net ?b 0 (False, [], 0, ?s1) [] = ((True, body, 200, ?s1\<lparr>g_lastError := e\<rparr>), evs)"
    using loop_completes by blast
  with assms(1,2,4,5,6) show ?thesis
    by (simp add: ValidateLicense_def Let_def parse_ttl_def)
qed

section \<open>The claims\<close>

text \<open>
  C1. In every reachable state whose cache holds a fresh token (non-empty, and the clock
  reading before the expiry), \<^verbatim>\<open>ValidateLicense\<close> returns 0, copies the cached token
  to \<open>outToken\<close> by \<^verbatim>\<open>strncpy(.., 511)\<close>, calls neither \<^verbatim>\<open>HttpPost\<close> nor
  \<^verbatim>\<open>Sleep\<close> (the list of events is empty) and leaves the whole state, the cache
  included, as it was. Read back as a C string, the buffer holds the token whenever the
  token is shorter than 511 bytes.
\<close>

theorem cache_hit_no_network:
  assumes "reachable s" and "g_cachedToken s \<noteq> []" and "now < g_tokenExpiry s"
  shows "ValidateLicense os net now now2 key account broker deviceId endpointUrl outToken outError s =
           \<lparr>outcome = Returns 0, token_buffer = copy_out outToken (g_cachedToken s) 511,
            error_buffer = None, events = [], final = s\<rparr>
         \<and> (length (c_str (g_cachedToken s)) < 511 \<longrightarrow>
              map_option c_str (copy_out True (g_cachedToken s) 511) = Some (c_str (g_cachedToken s)))"
proof -
  from assms(1,2) have "g_initialized s"
    using reachable_invariant by blast
  with assms(2,3) show ?thesis
    by (simp add: ValidateLicense_def copy_out_def c_str_strncpy)
qed

theorem cache_hit_no_network_witness:
  "reachable cached_state \<and> g_cachedToken cached_state = ''tok-abc'' \<and> 6 < g_tokenExpiry cached_state
   \<and> ValidateLicense demo_os (\<lambda>i. cannot_connect) 6 7 (Some ''KEY1'') (Some ''ACC1'')
        (Some ''BROKERX'') (Some ''DEV1'') None True True cached_state =
      \<lparr>outcome = Returns 0, token_buffer = copy_out True ''tok-abc'' 511,
       error_buffer = None, events = [], final = cached_state\<rparr>
   \<and> length (c_str ''tok-abc'') < 511
   \<and> map_option c_str (copy_out True ''tok-abc'' 511) = Some (c_str ''tok-abc'')"
proof -
  have t: "g_cachedToken cached_state = ''tok-abc''" by code_simp
  have f: "6 < g_tokenExpiry cached_state" by code_simp
  have l: "length (c_str ''tok-abc'') < 511" by code_simp
  from t have ne: "g_cachedToken cached_state \<noteq> []" by simp
  have "ValidateLicense demo_os (\<lambda>i. cannot_connect) 6 7 (Some ''KEY1'') (Some ''ACC1'')
        (Some ''BROKERX'') (Some ''DEV1'') None True True cached_state =
      \<lparr>outcome = Returns 0, token_buffer = copy_out True (g_cachedToken cached_state) 511,
       error_buffer = None, events = [], final = cached_state\<rparr>
       \<and> (length (c_str (g_cachedToken cached_state)) < 511 \<longrightarrow>
              map_option c_str (copy_out True (g_cachedToken cached_state) 511) = Some (c_str (g_cachedToken cached_state)))"
    by (rule cache_hit_no_network [OF cached_reachable ne f])
  then have "ValidateLicense demo_os (\<lambda>i. cannot_connect) 6 7 (Some ''KEY1'') (Some ''ACC1'')
        (Some ''BROKERX'') (Some ''DEV1'') None True True cached_state =
      \<lparr>outcome = Returns 0, token_buffer = copy_out True ''tok-abc'' 511,
       error_buffer = None, events = [], final = cached_state\<rparr>
       \<and> (length (c_str ''tok-abc'') < 511 \<longrightarrow>
              map_option c_str (copy_out True ''tok-abc'' 511) = Some (c_str ''tok-abc''))"
    unfolding t .
  with cached_reachable t f l show ?thesis by blast
qed

text \<open>
  C2. On a cache miss the loop posts the request at most three times, with no delay
  before the first attempt, \<^verbatim>\<open>Sleep(1000)\<close> before the second and \<^verbatim>\<open>Sleep(2000)\<close>
  before the third. It stops at the first attempt whose exchange completes, whatever the
  status code of the answer. When all three attempts fail the call returns -2, and both
  \<open>g_lastError\<close> and the error buffer carry the error text of the third attempt.
\<close>

theorem retry_policy:
  assumes "g_initialized s" and "\<not> (g_cachedToken s \<noteq> [] \<and> now < g_tokenExpiry s)"
  shows
    "let r = ValidateLicense os net now now2 key account broker deviceId endpointUrl outToken outError s;
         b = BuildRequest key account broker deviceId
     in length (filter is_Post (events r)) \<le> 3
        \<and> events r =
            (if transport_ok s (net 0) then [Post b]
             else if transport_ok s (net 1) then [Post b, Sleep 1000, Post b]
             else [Post b, Sleep 1000, Post b, Sleep 2000, Post b])
        \<and> (\<not> transport_ok s (net 0) \<and> \<not> transport_ok s (net 1) \<and> \<not> transport_ok s (net 2) \<longrightarrow>
             outcome r = Returns (- 2)
             \<and> g_lastError (final r) = transport_error s (net 2)
             \<and> error_buffer r = copy_out outError (transport_error s (net 2)) 255)"
proof -
  let ?s1 = "ApplyOverride os endpointUrl s" and ?b = "BuildRequest key account broker deviceId"
  note tr = transport_ApplyOverride [where os = os and e = endpointUrl and s = s]
  consider (first) "transport_ok s (net 0)"
    | (second) "\<not> transport_ok s (net 0)" "transport_ok s (net 1)"
    | (third) "\<not> transport_ok s (net 0)" "\<not> transport_ok s (net 1)" "transport_ok s (net 2)"
    | (none) "\<not> transport_ok s (net 0)" "\<not> transport_ok s (net 1)" "\<not> transport_ok s (net 2)"
    by blast
  then show ?thesis
  proof cases
    case first
    then have "retry_loop net ?b 0 (False, [], 0, ?s1) [] =
        ((True, transport_body ?s1 (net 0), transport_status ?s1 (net 0), ?s1), [Post ?b])"
      by (intro loop_first) (simp add: tr)
    with assms first show ?thesis
      by (simp add: ValidateLicense_def Let_def split: sum.splits)
  next
    case second
    then have "retry_loop net ?b 0 (False, [], 0, ?s1) [] =
        ((True, transport_body ?s1 (net 1), transport_status ?s1 (net 1),
          ?s1\<lparr>g_lastError := transport_error ?s1 (net 0)\<rparr>), [Post ?b, Sleep 1000, Post ?b])"
      by (intro loop_second) (simp_all add: tr)
    with assms second show ?thesis
      by (simp add: ValidateLicense_def Let_def split: sum.splits)
  next
    case third
    then have "retry_loop net ?b 0 (False, [], 0, ?s1) [] =
        ((True, transport_body ?s1 (net 2), transport_status ?s1 (net 2),
          ?s1\<lparr>g_lastError := transport_error ?s1 (net 1)\<rparr>),
         [Post ?b, Sleep 1000, Post ?b, Sleep 2000, Post ?b])"
      by (intro loop_third) (simp_all add: tr)
    with assms third show ?thesis
      by (simp add: ValidateLicense_def Let_def split: sum.splits)
  next
    case none
    then have "\<exists>rb st. retry_loop net ?b 0 (False, [], 0, ?s1) [] =
        ((False, rb, st, ?s1\<lparr>g_lastError := transport_error ?s1 (net 2)\<rparr>),
         [Post ?b, Sleep 1000, Post ?b, Sleep 2000, Post ?b])"
      by (intro loop_exhausted) (simp_all add: tr)
    then obtain rb st where "retry_loop net ?b 0 (False, [], 0, ?s1) [] =
        ((False, rb, st, ?s1\<lparr>g_lastError := transport_error ?s1 (net 2)\<rparr>),
         [Post ?b, Sleep 1000, Post ?b, Sleep 2000, Post ?b])"
      by blast
    with assms none show ?thesis
      by (simp add: ValidateLicense_def Let_def tr)
  qed
qed

theorem retry_policy_witness:
  "g_initialized ready_state
   \<and> \<not> (g_cachedToken ready_state \<noteq> [] \<and> 0 < g_tokenExpiry ready_state)
   \<and> \<not> transport_ok ready_state cannot_connect
   \<and> transport_ok ready_state (respond 503 ''busy'')
   \<and> (let r = ValidateLicense demo_os (\<lambda>i. cannot_connect) 0 5 (Some ''KEY1'') (Some ''ACC1'')
                 (Some ''BROKERX'') (Some ''DEV1'') None True True ready_state;
           b = BuildRequest (Some ''KEY1'') (Some ''ACC1'') (Some ''BROKERX'') (Some ''DEV1'')
       in events r = [Post b, Sleep 1000, Post b, Sleep 2000, Post b]
          \<and> outcome r = Returns (- 2)
          \<and> g_lastError (final r) = ''Failed to connect to server: 12029'')
   \<and> (let r = ValidateLicense demo_os (\<lambda>i. if i = 0 then cannot_connect else respond 503 ''busy'')
                 0 5 (Some ''KEY1'') (Some ''ACC1'') (Some ''BROKERX'') (Some ''DEV1'') None True True
                 ready_state;
           b = BuildRequest (Some ''KEY1'') (Some ''ACC1'') (Some ''BROKERX'') (Some ''DEV1'')
       in events r = [Post b, Sleep 1000, Post b])"
proof -
  have i: "g_initialized ready_state" by code_simp
  have m: "\<not> (g_cachedToken ready_state \<noteq> [] \<and> 0 < g_tokenExpiry ready_state)" by code_simp
  have n: "\<not> transport_ok ready_state cannot_connect" by code_simp
  have e: "transport_error ready_state cannot_connect = ''Failed to connect to server: 12029''"
    by code_simp
  have k: "transport_ok ready_state (respond 503 ''busy'')" by code_simp
  have one: "(1::nat) \<noteq> 0" by simp
  note all_fail = retry_policy [OF i m, of demo_os "\<lambda>i. cannot_connect" 5 "Some ''KEY1''"
      "Some ''ACC1''" "Some ''BROKERX''" "Some ''DEV1''" None True True,
      unfolded Let_def if_not_P [OF n] e]
  note second = retry_policy [OF i m, of demo_os
      "\<lambda>i. if i = 0 then cannot_connect else respond 503 ''busy''" 5 "Some ''KEY1''"
      "Some ''ACC1''" "Some ''BROKERX''" "Some ''DEV1''" None True True,
      unfolded Let_def if_P [OF refl] if_not_P [OF one] if_not_P [OF n] if_P [OF k]]
  from all_fail second i m n k show ?thesis
    unfolding Let_def by blast
qed

text \<open>
  C3. When the first completed exchange of a cache miss answers with status 200 and the
  value extracted for \<open>valid\<close> is not the string \<open>true\<close> (an absent key extracts the
  empty string), \<^verbatim>\<open>ValidateLicense\<close> returns -4, empties the cached token and sets its
  TTL to 0, and the error text, in \<open>g_lastError\<close> and copied to the error buffer, is the
  extracted \<open>message\<close>, or \<open>License invalid\<close> when that is empty.
\<close>

theorem invalid_license_clears_cache:
  assumes "g_initialized s" and "\<not> (g_cachedToken s \<noteq> [] \<and> now < g_tokenExpiry s)"
    and "exchange_completes s net 200 body"
    and "ExtractJsonValue body ''valid'' \<noteq> ''true''"
  shows
    "let r = ValidateLicense os net now now2 key account broker deviceId endpointUrl outToken outError s;
         message = ExtractJsonValue body ''message'';
         text = (if message = [] then ''License invalid'' else message)
     in outcome r = Returns (- 4)
        \<and> g_cachedToken (final r) = [] \<and> g_tokenTTL (final r) = 0
        \<and> g_lastError (final r) = text
        \<and> error_buffer r = copy_out outError text 255"
proof -
  let ?s1 = "ApplyOverride os endpointUrl s" and ?b = "BuildRequest key account broker deviceId"
  from assms(3) have "exchange_completes ?s1 net 200 body"
    by (simp add: exchange_completes_ApplyOverride)
  then obtain e evs where
    "retry_loop net ?b 0 (False, [], 0, ?s1) [] = ((True, body, 200, ?s1\<lparr>g_lastError := e\<rparr>), evs)"
    using loop_completes by blast
  with assms(1,2,4) show ?thesis
    by (simp add: ValidateLicense_def Let_def)
qed

theorem invalid_license_clears_cache_witness:
  "g_initialized cached_state
   \<and> g_cachedToken cached_state = ''tok-abc''
   \<and> \<not> (g_cachedToken cached_state \<noteq> [] \<and> 700000000 < g_tokenExpiry cached_state)
   \<and> exchange_completes cached_state (\<lambda>i. respond 200 invalid_response) 200 invalid_response
   \<and> ExtractJsonValue invalid_response ''valid'' \<noteq> ''true''
   \<and> (let r = ValidateLicense demo_os (\<lambda>i. respond 200 invalid_response) 700000000 700000001
                 (Some ''KEY1'') (Some ''ACC1'') (Some ''BROKERX'') (Some ''DEV1'') None True True
                 cached_state
       in outcome r = Returns (- 4) \<and> g_cachedToken (final r) = [] \<and> g_tokenTTL (final r) = 0
          \<and> g_lastError (final r) = ''License expired''
          \<and> error_buffer r = copy_out True ''License expired'' 255)"
proof -
  have t: "g_cachedToken cached_state = ''tok-abc''" by code_simp
  have m: "\<not> (g_cachedToken cached_state \<noteq> [] \<and> 700000000 < g_tokenExpiry cached_state)"
    by code_simp
  have x: "exchange_completes cached_state (\<lambda>i. respond 200 invalid_response) 200 invalid_response"
    using respond_completes [OF cached_session, of 200 invalid_response] unfolding sint_200 .
  have v: "ExtractJsonValue invalid_response ''valid'' \<noteq> ''true''" by code_simp
  have g: "ExtractJsonValue invalid_response ''message'' = ''License expired''" by code_simp
  have c: "(if ''License expired'' = [] then ''License invalid'' else ''License expired'') = ''License expired''"
    by simp
  note inst = invalid_license_clears_cache [OF cached_initialized m x v, of demo_os 700000001
      "Some ''KEY1''" "Some ''ACC1''" "Some ''BROKERX''" "Some ''DEV1''" None True True,
      unfolded Let_def g c]
  from inst cached_initialized t m x v show ?thesis
    unfolding Let_def by blast
qed

text \<open>
  C4. When the first completed exchange of a cache miss answers with a status other than
  200, \<^verbatim>\<open>ValidateLicense\<close> returns -3, the error text is \<open>HTTP\<close>, the status code, a
  colon and the raw body, and the cached token, its TTL and its expiry are what they
  were before the call.
\<close>

theorem http_status_error_keeps_cache:
  assumes "g_initialized s" and "\<not> (g_cachedToken s \<noteq> [] \<and> now < g_tokenExpiry s)"
    and "exchange_completes s net status body"
    and "status \<noteq> 200"
  shows
    "let r = ValidateLicense os net now now2 key account broker deviceId endpointUrl outToken outError s;
         text = ''HTTP '' @ to_string status @ '': '' @ body
     in outcome r = Returns (- 3)
        \<and> g_lastError (final r) = text
        \<and> error_buffer r = copy_out outError text 255
        \<and> token_cache (final r) = token_cache s"
proof -
  let ?s1 = "ApplyOverride os endpointUrl s" and ?b = "BuildRequest key account broker deviceId"
  from assms(3) have "exchange_completes ?s1 net status body"
    by (simp add: exchange_completes_ApplyOverride)
  then obtain e evs where
    "retry_loop net ?b 0 (False, [], 0, ?s1) [] = ((True, body, status, ?s1\<lparr>g_lastError := e\<rparr>), evs)"
    using loop_completes by blast
  with assms(1,2,4) show ?thesis
    by (simp add: ValidateLicense_def Let_def token_cache_def ApplyOverride_frame)
qed

theorem http_status_error_keeps_cache_witness:
  "g_initialized ready_state
   \<and> \<not> (g_cachedToken ready_state \<noteq> [] \<and> 0 < g_tokenExpiry ready_state)
   \<and> exchange_completes ready_state (\<lambda>i. respond 503 ''busy'') 503 ''busy''
   \<and> (503 :: int) \<noteq> 200
   \<and> (let r = ValidateLicense demo_os (\<lambda>i. respond 503 ''busy'') 0 5
                 (Some ''KEY1'') (Some ''ACC1'') (Some ''BROKERX'') (Some ''DEV1'') None True True
                 ready_state
       in outcome r = Returns (- 3)
          \<and> g_lastError (final r) = ''HTTP 503: busy''
          \<and> error_buffer r = copy_out True ''HTTP 503: busy'' 255
          \<and> token_cache (final r) = token_cache ready_state)"
proof -
  have x: "exchange_completes ready_state (\<lambda>i. respond 503 ''busy'') 503 ''busy''"
    using respond_completes [OF ready_session, of 503 "''busy''"] unfolding sint_503 .
  have d: "(503 :: int) \<noteq> 200" by simp
  have g: "''HTTP '' @ to_string 503 @ '': '' @ ''busy'' = ''HTTP 503: busy''" by code_simp
  note inst = http_status_error_keeps_cache [OF ready_initialized ready_miss x d, of demo_os 5
      "Some ''KEY1''" "Some ''ACC1''" "Some ''BROKERX''" "Some ''DEV1''" None True True,
      unfolded Let_def g]
  from inst ready_initialized ready_miss x d show ?thesis
    unfolding Let_def by blast
qed

text \<open>
  C5. A response with status 200, \<open>valid\<close> true and the text \<open>abc\<close> as \<open>ttlSeconds\<close>:
  \<^verbatim>\<open>std::stoi\<close> throws \<^verbatim>\<open>std::invalid_argument\<close>, nothing in \<^verbatim>\<open>ValidateLicense\<close>
  catches it, and the call ends by throwing instead of returning 0 with the default TTL.
\<close>

theorem malformed_ttl_throws:
  "outcome (ValidateLicense demo_os (\<lambda>i. respond 200 (valid_response (quoted ''abc''))) 0 5
              (Some ''KEY1'') (Some ''ACC1'') (Some ''BROKERX'') (Some ''DEV1'') None True True
              ready_state) = Throws invalid_argument"
  by code_simp

text \<open>
  C6. When a cache miss is answered with status 200 and \<open>valid\<close> is \<open>true\<close>: if the
  extracted \<open>ttlSeconds\<close> is empty, or converts to zero or a negative number, the call
  succeeds and the token is cached with TTL 900 and expiry 900 seconds after the second
  clock reading; if it converts to a positive number \<open>n\<close>, the TTL is \<open>n\<close> and the expiry
  is \<open>n\<close> seconds after that reading.
\<close>

theorem ttl_defaulting:
  assumes "g_initialized s" and "\<not> (g_cachedToken s \<noteq> [] \<and> now < g_tokenExpiry s)"
    and "exchange_completes s net 200 body"
    and "ExtractJsonValue body ''valid'' = ''true''"
  shows
    "let r = ValidateLicense os net now now2 key account broker deviceId endpointUrl outToken outError s;
         token = ExtractJsonValue body ''token'';
         ttlStr = ExtractJsonValue body ''ttlSeconds''
     in (ttlStr = [] \<or> (\<exists>n\<le>0. stoi ttlStr = Inr n) \<longrightarrow>
           outcome r = Returns 0 \<and> token_cache (final r) = (token, 900, now2 + seconds 900))
        \<and> (\<forall>n. ttlStr \<noteq> [] \<and> stoi ttlStr = Inr n \<and> 0 < n \<longrightarrow>
           outcome r = Returns 0 \<and> token_cache (final r) = (token, n, now2 + seconds n))"
proof -
  let ?s1 = "ApplyOverride os endpointUrl s" and ?b = "BuildRequest key account broker deviceId"
  from assms(3) have "exchange_completes ?s1 net 200 body"
    by (simp add: exchange_completes_ApplyOverride)
  then obtain e evs where
    "retry_loop net ?b 0 (False, [], 0, ?s1) [] = ((True, body, 200, ?s1\<lparr>g_lastError := e\<rparr>), evs)"
    using loop_completes by blast
  with assms(1,2,4) show ?thesis
    by (auto simp: ValidateLicense_def Let_def token_cache_def parse_ttl_def)
qed

theorem ttl_defaulting_witness:
  "g_initialized ready_state
   \<and> \<not> (g_cachedToken ready_state \<noteq> [] \<and> 0 < g_tokenExpiry ready_state)
   \<and> exchange_completes ready_state (\<lambda>i. respond 200 no_ttl_response) 200 no_ttl_response
   \<and> ExtractJsonValue no_ttl_response ''valid'' = ''true''
   \<and> ExtractJsonValue no_ttl_response ''ttlSeconds'' = []
   \<and> (let r = ValidateLicense demo_os (\<lambda>i. respond 200 no_ttl_response) 0 5
                 (Some ''KEY1'') (Some ''ACC1'') (Some ''BROKERX'') (Some ''DEV1'') None True True
                 ready_state
       in outcome r = Returns 0 \<and> token_cache (final r) = (''tok-abc'', 900, 5 + seconds 900))
   \<and> exchange_completes ready_state (\<lambda>i. respond 200 (valid_response ''-5'')) 200 (valid_response ''-5'')
   \<and> ExtractJsonValue (valid_response ''-5'') ''valid'' = ''true''
   \<and> stoi (ExtractJsonValue (valid_response ''-5'') ''ttlSeconds'') = Inr (- 5)
   \<and> (let r = ValidateLicense demo_os (\<lambda>i. respond 200 (valid_response ''-5'')) 0 5
                 (Some ''KEY1'') (Some ''ACC1'') (Some ''BROKERX'') (Some ''DEV1'') None True True
                 ready_state
       in outcome r = Returns 0 \<and> token_cache (final r) = (''tok-abc'', 900, 5 + seconds 900))
   \<and> exchange_completes ready_state (\<lambda>i. respond 200 (valid_response ''60'')) 200 (valid_response ''60'')
   \<and> ExtractJsonValue (valid_response ''60'') ''valid'' = ''true''
   \<and> stoi (ExtractJsonValue (valid_response ''60'') ''ttlSeconds'') = Inr 60
   \<and> (let r = ValidateLicense demo_os (\<lambda>i. respond 200 (valid_response ''60'')) 0 5
                 (Some ''KEY1'') (Some ''ACC1'') (Some ''BROKERX'') (Some ''DEV1'') None True True
                 ready_state
       in outcome r = Returns 0 \<and> token_cache (final r) = (''tok-abc'', 60, 5 + seconds 60))"
proof -
  have x0: "exchange_completes ready_state (\<lambda>i. respond 200 no_ttl_response) 200 no_ttl_response"
    using respond_completes [OF ready_session, of 200 no_ttl_response] unfolding sint_200 .
  have v0: "ExtractJsonValue no_ttl_response ''valid'' = ''true''" by code_simp
  have k0: "ExtractJsonValue no_ttl_response ''token'' = ''tok-abc''" by code_simp
  have l0: "ExtractJsonValue no_ttl_response ''ttlSeconds'' = []" by code_simp
  note i0 = ttl_defaulting [OF ready_initialized ready_miss x0 v0, of demo_os 5
      "Some ''KEY1''" "Some ''ACC1''" "Some ''BROKERX''" "Some ''DEV1''" None True True,
      unfolded Let_def k0 l0]
  have x1: "exchange_completes ready_state (\<lambda>i. respond 200 (valid_response ''-5'')) 200 (valid_response ''-5'')"
    using respond_completes [OF ready_session, of 200 "valid_response ''-5''"] unfolding sint_200 .
  have v1: "ExtractJsonValue (valid_response ''-5'') ''valid'' = ''true''" by code_simp
  have k1: "ExtractJsonValue (valid_response ''-5'') ''token'' = ''tok-abc''" by code_simp
  have l1: "ExtractJsonValue (valid_response ''-5'') ''ttlSeconds'' = ''-5''" by code_simp
  have s1: "stoi ''-5'' = Inr (- 5)" by code_simp
  have n1: "(- 5 :: int) \<le> 0" by simp
  note i1 = ttl_defaulting [OF ready_initialized ready_miss x1 v1, of demo_os 5
      "Some ''KEY1''" "Some ''ACC1''" "Some ''BROKERX''" "Some ''DEV1''" None True True,
      unfolded Let_def k1 l1]
  have x2: "exchange_completes ready_state (\<lambda>i. respond 200 (valid_response ''60'')) 200 (valid_response ''60'')"
    using respond_completes [OF ready_session, of 200 "valid_response ''60''"] unfolding sint_200 .
  have v2: "ExtractJsonValue (valid_response ''60'') ''valid'' = ''true''" by code_simp
  have k2: "ExtractJsonValue (valid_response ''60'') ''token'' = ''tok-abc''" by code_simp
  have l2: "ExtractJsonValue (valid_response ''60'') ''ttlSeconds'' = ''60''" by code_simp
  have s2: "stoi ''60'' = Inr 60" by code_simp
  have n2: "(0 :: int) < 60" "''60'' \<noteq> []" by simp_all
  note i2 = ttl_defaulting [OF ready_initialized ready_miss x2 v2, of demo_os 5
      "Some ''KEY1''" "Some ''ACC1''" "Some ''BROKERX''" "Some ''DEV1''" None True True,
      unfolded Let_def k2 l2]
  have c0: "outcome (ValidateLicense demo_os (\<lambda>i. respond 200 no_ttl_response) 0 5
                 (Some ''KEY1'') (Some ''ACC1'') (Some ''BROKERX'') (Some ''DEV1'') None True True
                 ready_state) = Returns 0 \<and> token_cache (final (ValidateLicense demo_os (\<lambda>i. respond 200 no_ttl_response) 0 5
                 (Some ''KEY1'') (Some ''ACC1'') (Some ''BROKERX'') (Some ''DEV1'') None True True
                 ready_state)) = (''tok-abc'', 900, 5 + seconds 900)"
    using i0 by blast
  have c1: "outcome (ValidateLicense demo_os (\<lambda>i. respond 200 (valid_response ''-5'')) 0 5
                 (Some ''KEY1'') (Some ''ACC1'') (Some ''BROKERX'') (Some ''DEV1'') None True True
                 ready_state) = Returns 0 \<and> token_cache (final (ValidateLicense demo_os (\<lambda>i. respond 200 (valid_response ''-5'')) 0 5
                 (Some ''KEY1'') (Some ''ACC1'') (Some ''BROKERX'') (Some ''DEV1'') None True True
                 ready_state)) = (''tok-abc'', 900, 5 + seconds 900)"
    using i1 s1 n1 by blast
  have c2: "outcome (ValidateLicense demo_os (\<lambda>i. respond 200 (valid_response ''60'')) 0 5
                 (Some ''KEY1'') (Some ''ACC1'') (Some ''BROKERX'') (Some ''DEV1'') None True True
                 ready_state) = Returns 0 \<and> token_cache (final (ValidateLicense demo_os (\<lambda>i. respond 200 (valid_response ''60'')) 0 5
                 (Some ''KEY1'') (Some ''ACC1'') (Some ''BROKERX'') (Some ''DEV1'') None True True
                 ready_state)) = (''tok-abc'', 60, 5 + seconds 60)"
    using i2 s2 n2 by blast
  from c0 c1 c2 ready_initialized ready_miss x0 v0 l0 x1 v1 x2 v2 s1 s2 l1 l2 show ?thesis
    unfolding Let_def by simp
qed

text \<open>
  C7, as stated, fails: 59.9999999 seconds before the expiry \<^verbatim>\<open>GetTokenTTL\<close> returns 59,
  where rounding up gives 60.
\<close>

theorem ttl_not_rounded_up:
  "g_cachedToken cached_state \<noteq> [] \<and> 6 < g_tokenExpiry cached_state
   \<and> GetTokenTTL 6 cached_state = 59
   \<and> max 0 (ceil_seconds (g_tokenExpiry cached_state - 6)) = 60"
  by code_simp

text \<open>
  C7, amended. \<^verbatim>\<open>IsTokenValid\<close> returns 1 exactly when the token is non-empty and the
  clock reading is before the expiry, and 0 otherwise. \<^verbatim>\<open>GetTokenTTL\<close> returns the
  remaining time truncated to whole seconds (rounded down, never negative), and 0 when
  the token is absent or expired. The remaining time is assumed to fit the 32-bit result.
\<close>

theorem token_queries:
  assumes "g_tokenExpiry s - now < seconds (2 ^ 31)"
  shows "IsTokenValid now s = (if g_cachedToken s \<noteq> [] \<and> now < g_tokenExpiry s then 1 else 0)
         \<and> GetTokenTTL now s =
             (if g_cachedToken s \<noteq> [] \<and> now < g_tokenExpiry s
              then (g_tokenExpiry s - now) div ticks_per_second else 0)
         \<and> 0 \<le> GetTokenTTL now s"
proof (cases "g_cachedToken s \<noteq> [] \<and> now < g_tokenExpiry s")
  case True
  let ?d = "g_tokenExpiry s - now"
  from True have pos: "0 \<le> ?d" by simp
  then have lo: "0 \<le> ?d div ticks_per_second"
    by (simp add: ticks_per_second_def)
  from assms have hi: "?d div ticks_per_second < 2 ^ 31"
    by (simp add: seconds_def ticks_per_second_def div_less_iff_less_mult)
  from lo hi have "static_cast_int (?d div ticks_per_second) = ?d div ticks_per_second"
    by (rule static_cast_int_id)
  with True pos lo show ?thesis
    by (simp add: IsTokenValid_def GetTokenTTL_def duration_cast_seconds_def)
next
  case False
  then show ?thesis
    by (auto simp: IsTokenValid_def GetTokenTTL_def)
qed

theorem token_queries_witness:
  "g_tokenExpiry cached_state - 6 < seconds (2 ^ 31)
   \<and> g_cachedToken cached_state \<noteq> [] \<and> 6 < g_tokenExpiry cached_state
   \<and> IsTokenValid 6 cached_state = 1
   \<and> GetTokenTTL 6 cached_state = (g_tokenExpiry cached_state - 6) div ticks_per_second
   \<and> (g_tokenExpiry cached_state - 6) div ticks_per_second = 59"
proof -
  have h: "g_tokenExpiry cached_state - 6 < seconds (2 ^ 31)" by code_simp
  have f: "g_cachedToken cached_state \<noteq> [] \<and> 6 < g_tokenExpiry cached_state" by code_simp
  have v: "(g_tokenExpiry cached_state - 6) div ticks_per_second = 59" by code_simp
  note inst = token_queries [OF h, unfolded if_P [OF f]]
  from inst h f v show ?thesis by blast
qed

text \<open>
  C8. The two bytes of a UTF-8 encoded \<open>e\<close> with acute accent, \<open>0xC3 0xA9\<close>, are not below
  \<open>0x20\<close>, yet \<^verbatim>\<open>EscapeJson\<close> rewrites each to a \<^verbatim>\<open>\u00XX\<close> escape: the comparison
  \<^verbatim>\<open>c < 0x20\<close> is made on a signed \<^verbatim>\<open>char\<close>.
\<close>

theorem high_bytes_escaped:
  "EscapeJson [CHR 0xC3, CHR 0xA9] = backslash # ''u00c3'' @ backslash # ''u00a9''"
  by code_simp

text \<open>
  C9. When \<^verbatim>\<open>WinHttpCrackUrl\<close> fails, \<^verbatim>\<open>ParseUrl\<close> changes nothing but
  \<open>g_lastError\<close>, which becomes \<open>Failed to parse URL\<close>. That is the state
  \<^verbatim>\<open>SetEndpoint\<close> returns with, and the state after the override step of
  \<^verbatim>\<open>ValidateLicense\<close>, whose later steps never write the endpoint: host, path, port and
  scheme after the call are those before it. Conversely the endpoint differs after
  \<^verbatim>\<open>ParseUrl\<close> or \<^verbatim>\<open>SetEndpoint\<close> only if the parse succeeded.
\<close>

theorem failed_parse_keeps_endpoint:
  "(WinHttpCrackUrl os url = None \<longrightarrow>
      ParseUrl os url s = (False, s\<lparr>g_lastError := ''Failed to parse URL''\<rparr>))
   \<and> (u \<noteq> None \<and> c_str (the u) \<noteq> [] \<and> WinHttpCrackUrl os (Utf8ToWide os u) = None \<longrightarrow>
      SetEndpoint os u s = s\<lparr>g_lastError := ''Failed to parse URL''\<rparr>)
   \<and> (e \<noteq> None \<and> c_str (the e) \<noteq> [] \<and> Utf8ToWide os e \<noteq> []
        \<and> WinHttpCrackUrl os (Utf8ToWide os e) = None \<longrightarrow>
      ApplyOverride os e s = s\<lparr>g_lastError := ''Failed to parse URL''\<rparr>)
   \<and> (WinHttpCrackUrl os (Utf8ToWide os e) = None \<longrightarrow>
      endpoint (final (ValidateLicense os net now now2 key account broker deviceId e outToken outError s))
        = endpoint s)
   \<and> (endpoint (snd (ParseUrl os url s)) \<noteq> endpoint s \<longrightarrow> WinHttpCrackUrl os url \<noteq> None)
   \<and> (endpoint (SetEndpoint os u s) \<noteq> endpoint s \<longrightarrow>
      WinHttpCrackUrl os (Utf8ToWide os u) \<noteq> None)"
proof (intro conjI impI)
  assume "WinHttpCrackUrl os url = None"
  then show "ParseUrl os url s = (False, s\<lparr>g_lastError := ''Failed to parse URL''\<rparr>)"
    by (simp add: ParseUrl_def)
next
  assume "u \<noteq> None \<and> c_str (the u) \<noteq> [] \<and> WinHttpCrackUrl os (Utf8ToWide os u) = None"
  then show "SetEndpoint os u s = s\<lparr>g_lastError := ''Failed to parse URL''\<rparr>"
    by (auto simp: SetEndpoint_def ParseUrl_def Let_def)
next
  assume "e \<noteq> None \<and> c_str (the e) \<noteq> [] \<and> Utf8ToWide os e \<noteq> []
        \<and> WinHttpCrackUrl os (Utf8ToWide os e) = None"
  then show "ApplyOverride os e s = s\<lparr>g_lastError := ''Failed to parse URL''\<rparr>"
    by (auto simp: ApplyOverride_def ParseUrl_def Let_def)
next
  assume "WinHttpCrackUrl os (Utf8ToWide os e) = None"
  then show "endpoint (final (ValidateLicense os net now now2 key account broker deviceId e outToken outError s))
        = endpoint s"
    by (simp add: ValidateLicense_endpoint ApplyOverride_endpoint)
next
  assume "endpoint (snd (ParseUrl os url s)) \<noteq> endpoint s"
  moreover have "WinHttpCrackUrl os url = None \<Longrightarrow> endpoint (snd (ParseUrl os url s)) = endpoint s"
    by (simp add: ParseUrl_def endpoint_def)
  ultimately show "WinHttpCrackUrl os url \<noteq> None"
    by blast
next
  assume "endpoint (SetEndpoint os u s) \<noteq> endpoint s"
  moreover have "WinHttpCrackUrl os (Utf8ToWide os u) = None \<Longrightarrow>
      endpoint (SetEndpoint os u s) = endpoint s"
    by (simp add: SetEndpoint_def ParseUrl_def Let_def endpoint_def)
  ultimately show "WinHttpCrackUrl os (Utf8ToWide os u) \<noteq> None"
    by blast
qed


theorem failed_parse_keeps_endpoint_witness:
  "WinHttpCrackUrl demo_os (widen ''not a url'') = None
   \<and> Utf8ToWide demo_os (Some ''not a url'') = widen ''not a url''
   \<and> ParseUrl demo_os (widen ''not a url'') ready_state =
        (False, ready_state\<lparr>g_lastError := ''Failed to parse URL''\<rparr>)
   \<and> SetEndpoint demo_os (Some ''not a url'') ready_state =
        ready_state\<lparr>g_lastError := ''Failed to parse URL''\<rparr>
   \<and> ApplyOverride demo_os (Some ''not a url'') ready_state =
        ready_state\<lparr>g_lastError := ''Failed to parse URL''\<rparr>
   \<and> endpoint (final (ValidateLicense demo_os (\<lambda>i. respond 200 (valid_response ''60'')) 0 5
          (Some ''KEY1'') (Some ''ACC1'') (Some ''BROKERX'') (Some ''DEV1'') (Some ''not a url'')
          True True ready_state)) = endpoint ready_state
   \<and> endpoint (snd (ParseUrl demo_os (widen ''https://api.hedge-edge.com/v1/license/validate'')
          initial_state)) \<noteq> endpoint initial_state
   \<and> WinHttpCrackUrl demo_os (widen ''https://api.hedge-edge.com/v1/license/validate'') \<noteq> None
   \<and> endpoint (SetEndpoint demo_os (Some ''https://api.hedge-edge.com/v1/license/validate'')
          initial_state) \<noteq> endpoint initial_state
   \<and> WinHttpCrackUrl demo_os
         (Utf8ToWide demo_os (Some ''https://api.hedge-edge.com/v1/license/validate'')) \<noteq> None"
proof -
  have a1: "WinHttpCrackUrl demo_os (widen ''not a url'') = None" by code_simp
  have a2: "Utf8ToWide demo_os (Some ''not a url'') = widen ''not a url''" by code_simp
  have a3: "Some ''not a url'' \<noteq> None \<and> c_str (the (Some ''not a url'')) \<noteq> []" by code_simp
  have a4: "widen ''not a url'' \<noteq> []" by code_simp
  have b1: "endpoint (snd (ParseUrl demo_os (widen ''https://api.hedge-edge.com/v1/license/validate'')
          initial_state)) \<noteq> endpoint initial_state" by code_simp
  have b2: "endpoint (SetEndpoint demo_os (Some ''https://api.hedge-edge.com/v1/license/validate'')
          initial_state) \<noteq> endpoint initial_state" by code_simp
  note bad = failed_parse_keeps_endpoint [where os = demo_os and url = "widen ''not a url''"
      and s = ready_state and u = "Some ''not a url''" and e = "Some ''not a url''"
      and net = "\<lambda>i. respond 200 (valid_response ''60'')" and now = 0 and ?now2.0 = 5
      and key = "Some ''KEY1''" and account = "Some ''ACC1''" and broker = "Some ''BROKERX''"
      and deviceId = "Some ''DEV1''" and outToken = True and outError = True, unfolded a2]
  note good = failed_parse_keeps_endpoint [where os = demo_os
      and url = "widen ''https://api.hedge-edge.com/v1/license/validate''"
      and s = initial_state and u = "Some ''https://api.hedge-edge.com/v1/license/validate''"]
  from bad good a1 a2 a3 a4 b1 b2 show ?thesis by blast
qed

text \<open>
  C10. With a fresh token and \<open>tokenLen\<close> at least 1, \<^verbatim>\<open>GetCachedToken\<close> returns 0 and
  writes \<open>tokenLen\<close> bytes: \<open>tokenLen - 1\<close> by \<^verbatim>\<open>strncpy\<close> and a NUL. The C string in the
  buffer is the first \<open>tokenLen - 1\<close> characters of the token, so a longer token is cut,
  and the return value is 0 either way.
\<close>

theorem GetCachedToken_truncates:
  assumes "g_cachedToken s \<noteq> []" and "now < g_tokenExpiry s" and "1 \<le> tokenLen"
  shows "GetCachedToken now True tokenLen s =
           (0, Some (strncpy (g_cachedToken s) (nat (tokenLen - 1)) @ [NUL]))
         \<and> length (strncpy (g_cachedToken s) (nat (tokenLen - 1)) @ [NUL]) = nat tokenLen
         \<and> c_str (strncpy (g_cachedToken s) (nat (tokenLen - 1)) @ [NUL]) =
             take (nat (tokenLen - 1)) (c_str (g_cachedToken s))
         \<and> fst (GetCachedToken now outToken tokenLen s) = 0"
  using assms
  by (simp add: GetCachedToken_def length_strncpy c_str_terminated)

theorem GetCachedToken_truncates_witness:
  "g_cachedToken cached_state \<noteq> [] \<and> 6 < g_tokenExpiry cached_state \<and> (1 :: int) \<le> 4
   \<and> c_str (g_cachedToken cached_state) = ''tok-abc''
   \<and> GetCachedToken 6 True 4 cached_state = (0, Some (''tok'' @ [NUL]))
   \<and> c_str (strncpy (g_cachedToken cached_state) (nat (4 - 1)) @ [NUL]) = ''tok''"
proof -
  have t: "g_cachedToken cached_state \<noteq> []" by code_simp
  have f: "6 < g_tokenExpiry cached_state" by code_simp
  have l: "(1 :: int) \<le> 4" by simp
  have c: "c_str (g_cachedToken cached_state) = ''tok-abc''" by code_simp
  have b: "strncpy (g_cachedToken cached_state) (nat (4 - 1)) @ [NUL] = ''tok'' @ [NUL]" by code_simp
  have k: "take (nat (4 - 1)) ''tok-abc'' = ''tok''" by code_simp
  note inst = GetCachedToken_truncates [OF t f l, of True, unfolded c k]
  from inst t f l c b show ?thesis by metis
qed

end
